theory Spec2Isabelle
  imports Complex_Main
begin

section \<open>The host platform, as far as water\_heater.py reads it\<close>

text \<open>
  The string constants imported from \<^verbatim>\<open>homeassistant.const\<close> and
  \<^verbatim>\<open>homeassistant.components.water_heater\<close>.
\<close>

definition STATE_OFF :: string where
  "STATE_OFF = ''off''"

definition STATE_ON :: string where
  "STATE_ON = ''on''"

definition STATE_UNAVAILABLE :: string where
  "STATE_UNAVAILABLE = ''unavailable''"

definition STATE_UNKNOWN :: string where
  "STATE_UNKNOWN = ''unknown''"

definition STATE_ELECTRIC :: string where
  "STATE_ELECTRIC = ''electric''"

definition SERVICE_TURN_ON :: string where
  "SERVICE_TURN_ON = ''turn_on''"

definition SERVICE_TURN_OFF :: string where
  "SERVICE_TURN_OFF = ''turn_off''"

definition ATTR_ENTITY_ID :: string where
  "ATTR_ENTITY_ID = ''entity_id''"

definition EVENT_HOMEASSISTANT_START :: string where
  "EVENT_HOMEASSISTANT_START = ''homeassistant_start''"

text \<open>
  \<^verbatim>\<open>from .const import SENSOR_DOMAIN, SWITCH_DOMAIN, ROOM_TEMP, BOIL_TEMP\<close>: the module
  \<^verbatim>\<open>const.py\<close> is not among the sources, so its four constants are a parameter of
  every function that reads them. The two temperatures are the defaults of options
  validated by \<^verbatim>\<open>cv.positive_int\<close>, hence integers.
\<close>

record const_py =
  SENSOR_DOMAIN :: string
  SWITCH_DOMAIN :: string
  ROOM_TEMP :: int
  BOIL_TEMP :: int

text \<open>
  A Python float: a finite value, one of the two infinities, or NaN. The builtin
  \<^verbatim>\<open>float(s)\<close> on a string is a parameter \<open>float\<close> of the functions below; it
  returns \<open>None\<close> where Python raises \<^verbatim>\<open>ValueError\<close>.
\<close>

datatype pyfloat = Finite real | PosInf | NegInf | NaN

type_synonym float_builtin = "string \<Rightarrow> pyfloat option"

fun isnan :: "pyfloat \<Rightarrow> bool" where
  "isnan NaN = True"
| "isnan _ = False"

fun isinf :: "pyfloat \<Rightarrow> bool" where
  "isinf PosInf = True"
| "isinf NegInf = True"
| "isinf _ = False"

text \<open>
  A \<^verbatim>\<open>State\<close> object of the host; the file reads only its \<^verbatim>\<open>.state\<close> string.
  An event carries \<^verbatim>\<open>event.data.get("new_state")\<close>, which may be \<^verbatim>\<open>None\<close>.
\<close>

datatype State = State (state: string)

record event =
  new_state :: "State option"

datatype CoreState = not_running | starting | running | stopping | final_write | stopped

text \<open>
  \<^verbatim>\<open>hass.states.get(entity_id)\<close> is a lookup in \<open>hass_states\<close>;
  \<^verbatim>\<open>hass.state\<close> is \<open>hass_state\<close>.
\<close>

record hass =
  hass_states :: "string \<rightharpoonup> State"
  hass_state :: CoreState

section \<open>Effects on the host\<close>

text \<open>
  The \<^verbatim>\<open>ValueError\<close> caught in \<^verbatim>\<open>_async_update_temp\<close> is either the one
  \<^verbatim>\<open>float\<close> raises on a string it cannot convert, or the one raised by the function
  itself with the message \<^verbatim>\<open>Sensor has illegal state ...\<close>.
\<close>

datatype value_error = CouldNotConvert string | IllegalState string

record service_call =
  domain :: string
  service :: string
  service_data :: "(string \<times> string) list"
  blocking :: bool

datatype listener = SensorChanged | Startup | StateChangedListener

datatype error = AttributeError

text \<open>
  Every call into the host that the file makes, in the order made:
  \<^item> \<open>LogError\<close>: \<^verbatim>\<open>_LOGGER.error("Unable to update from sensor: %s", ex)\<close>;
  \<^item> \<open>WriteHaState\<close>: \<^verbatim>\<open>self.async_write_ha_state()\<close>;
  \<^item> \<open>ServiceCall\<close>: \<^verbatim>\<open>await self.hass.services.async_call(...)\<close>;
  \<^item> \<open>DispatcherSend\<close>:
    \<^verbatim>\<open>self.hass.async_add_executor_job(async_dispatcher_send, self.hass, signal)\<close>;
  \<^item> \<open>TrackStateChange\<close>: \<^verbatim>\<open>self.async_on_remove(async_track_state_change_event(...))\<close>;
  \<^item> \<open>ListenOnce\<close>: \<^verbatim>\<open>self.hass.bus.async_listen_once(event_type, listener)\<close>.

  \<open>Raised\<close> closes the list of a call that an exception leaves uncaught: the statements
  after the raising one are not executed, and the fields assigned before it stay assigned.
\<close>

datatype effect =
    LogError value_error
  | WriteHaState
  | ServiceCall service_call
  | DispatcherSend string
  | TrackStateChange "string list" listener
  | ListenOnce string listener
  | Raised error

fun logged_errors :: "effect list \<Rightarrow> value_error list" where
  "logged_errors [] = []"
| "logged_errors (LogError e # es) = e # logged_errors es"
| "logged_errors (_ # es) = logged_errors es"

fun service_calls :: "effect list \<Rightarrow> service_call list" where
  "service_calls [] = []"
| "service_calls (ServiceCall sc # es) = sc # service_calls es"
| "service_calls (_ # es) = service_calls es"

fun state_writes :: "effect list \<Rightarrow> nat" where
  "state_writes [] = 0"
| "state_writes (WriteHaState # es) = Suc (state_writes es)"
| "state_writes (_ # es) = state_writes es"

fun raised :: "effect list \<Rightarrow> bool" where
  "raised [] = False"
| "raised (Raised e # es) = True"
| "raised (_ # es) = raised es"

section \<open>ComplexWaterHeater\<close>

text \<open>
  The fields of the adapter (the leading underscore of the Python names is dropped).
  \<^verbatim>\<open>_attr_available\<close> and \<^verbatim>\<open>_attr_is_on\<close> are assigned only by
  \<^verbatim>\<open>async_state_changed_listener\<close>: \<open>None\<close> is the field that this file has not
  assigned yet.
\<close>

record adapter =
  attr_name :: string
  attr_unique_id :: "string option"
  attr_min_temp :: int
  attr_max_temp :: int
  switch_entity_id :: string
  temperature_entity_id :: string
  cur_temp :: "pyfloat option"
  attr_available :: "bool option"
  attr_is_on :: "bool option"

definition attr_operation_list :: "string list" where
  "attr_operation_list = [STATE_OFF, STATE_ELECTRIC]"

text \<open>\<^verbatim>\<open>__init__\<close>\<close>

definition ComplexWaterHeater ::
  "string \<Rightarrow> string \<Rightarrow> string \<Rightarrow> int \<Rightarrow> int \<Rightarrow> string option \<Rightarrow> adapter" where
  "ComplexWaterHeater name switch_id temperature_id min_t max_t unique_id =
     \<lparr> attr_name = name,
       attr_unique_id = unique_id,
       attr_min_temp = min_t,
       attr_max_temp = max_t,
       switch_entity_id = switch_id,
       temperature_entity_id = temperature_id,
       cur_temp = None,
       attr_available = None,
       attr_is_on = None \<rparr>"

subsection \<open>Properties\<close>

definition min_temp :: "const_py \<Rightarrow> adapter \<Rightarrow> int" where
  "min_temp c self = ROOM_TEMP c"

definition max_temp :: "const_py \<Rightarrow> adapter \<Rightarrow> int" where
  "max_temp c self = BOIL_TEMP c"

definition current_temperature :: "adapter \<Rightarrow> pyfloat option" where
  "current_temperature self = cur_temp self"

text \<open>
  \<^verbatim>\<open>return self.max_temp if self._attr_is_on else self.min_temp\<close>. The attribute
  \<^verbatim>\<open>_attr_is_on\<close> is defined neither by the class body nor by \<^verbatim>\<open>__init__\<close>, and
  the host's base class has none of that name: until the listener has assigned it, reading
  it raises \<^verbatim>\<open>AttributeError\<close>, and the two properties have no value (\<open>None\<close>).
\<close>

definition target_temperature :: "const_py \<Rightarrow> adapter \<Rightarrow> int option" where
  "target_temperature c self =
     (case attr_is_on self of
        None \<Rightarrow> None
      | Some is_on \<Rightarrow> Some (if is_on then max_temp c self else min_temp c self))"

definition current_operation :: "adapter \<Rightarrow> string option" where
  "current_operation self =
     (case attr_is_on self of
        None \<Rightarrow> None
      | Some is_on \<Rightarrow> Some (if is_on then STATE_ELECTRIC else STATE_OFF))"

subsection \<open>Writing the state to the host\<close>

text \<open>
  \<^verbatim>\<open>self.async_write_ha_state()\<close> is the host's method; to build the state it writes,
  it reads the properties of the entity, \<^verbatim>\<open>current_operation\<close> (the state of a
  water heater) among them. The write therefore raises \<^verbatim>\<open>AttributeError\<close> as long
  as \<^verbatim>\<open>_attr_is_on\<close> is unassigned.
\<close>

definition async_write_ha_state :: "adapter \<Rightarrow> effect list" where
  "async_write_ha_state self =
     (case current_operation self of
        None \<Rightarrow> [Raised AttributeError]
      | Some _ \<Rightarrow> [WriteHaState])"

subsection \<open>Sensor updates\<close>

text \<open>
  \<^verbatim>\<open>_async_update_temp\<close>: the \<^verbatim>\<open>try\<close> block either stores the parsed value or
  ends in the \<^verbatim>\<open>except ValueError\<close> branch, which logs.
\<close>

definition async_update_temp :: "float_builtin \<Rightarrow> adapter \<Rightarrow> State \<Rightarrow> adapter \<times> effect list" where
  "async_update_temp float self st =
     (case float (state st) of
        None \<Rightarrow> (self, [LogError (CouldNotConvert (state st))])
      | Some cur \<Rightarrow>
          if isnan cur \<or> isinf cur
          then (self, [LogError (IllegalState (state st))])
          else (self\<lparr>cur_temp := Some cur\<rparr>, []))"

text \<open>\<^verbatim>\<open>_async_sensor_changed\<close>\<close>

definition async_sensor_changed :: "float_builtin \<Rightarrow> adapter \<Rightarrow> event \<Rightarrow> adapter \<times> effect list" where
  "async_sensor_changed float self ev =
     (case new_state ev of
        None \<Rightarrow> (self, [])
      | Some ns \<Rightarrow>
          if state ns \<in> set [STATE_UNAVAILABLE, STATE_UNKNOWN] then (self, [])
          else (let (self1, es) = async_update_temp float self ns
                in (self1, es @ async_write_ha_state self1)))"

subsection \<open>Commands\<close>

text \<open>
  \<^verbatim>\<open>async_turn_on\<close>, \<^verbatim>\<open>async_turn_off\<close> and \<^verbatim>\<open>async_set_operation_mode\<close>
  assign no field of the adapter; their result is the list of calls made. The
  \<^verbatim>\<open>context\<close> argument of the service call is a field of the base class and is left out.
\<close>

definition async_turn_on :: "const_py \<Rightarrow> adapter \<Rightarrow> effect list" where
  "async_turn_on c self =
     [ServiceCall \<lparr> domain = SWITCH_DOMAIN c,
                    service = SERVICE_TURN_ON,
                    service_data = [(ATTR_ENTITY_ID, switch_entity_id self)],
                    blocking = True \<rparr>]"

definition async_turn_off :: "const_py \<Rightarrow> adapter \<Rightarrow> effect list" where
  "async_turn_off c self =
     [ServiceCall \<lparr> domain = SWITCH_DOMAIN c,
                    service = SERVICE_TURN_OFF,
                    service_data = [(ATTR_ENTITY_ID, switch_entity_id self)],
                    blocking = True \<rparr>]"

definition async_set_operation_mode :: "const_py \<Rightarrow> adapter \<Rightarrow> string \<Rightarrow> effect list" where
  "async_set_operation_mode c self operation_mode =
     (if operation_mode = STATE_OFF then async_turn_off c self else async_turn_on c self)
     @ [DispatcherSend ''update'']"

subsection \<open>Registration\<close>

text \<open>The closure \<^verbatim>\<open>_async_startup\<close> of \<^verbatim>\<open>async_added_to_hass\<close>.\<close>

definition async_startup :: "float_builtin \<Rightarrow> hass \<Rightarrow> adapter \<Rightarrow> adapter \<times> effect list" where
  "async_startup float h self =
     (case hass_states h (temperature_entity_id self) of
        None \<Rightarrow> (self, [])
      | Some sensor_state \<Rightarrow>
          if state sensor_state \<notin> set [STATE_UNAVAILABLE, STATE_UNKNOWN]
          then (let (self1, es) = async_update_temp float self sensor_state
                in (self1, es @ async_write_ha_state self1))
          else (self, []))"

text \<open>The closure \<^verbatim>\<open>async_state_changed_listener\<close>; its event argument is not read.\<close>

definition async_state_changed_listener :: "hass \<Rightarrow> adapter \<Rightarrow> adapter \<times> effect list" where
  "async_state_changed_listener h self =
     (case hass_states h (switch_entity_id self) of
        None \<Rightarrow> (self\<lparr>attr_available := Some False\<rparr>, [])
      | Some st \<Rightarrow>
          if state st = STATE_UNAVAILABLE
          then (self\<lparr>attr_available := Some False\<rparr>, [])
          else (let self1 = self\<lparr>attr_available := Some True,
                                     attr_is_on := Some (state st = STATE_ON)\<rparr>
                in (self1, async_write_ha_state self1)))"

text \<open>
  \<^verbatim>\<open>async_added_to_hass\<close>. On a running host \<^verbatim>\<open>_async_startup()\<close> is called
  before the switch listener has run; when its state write raises, the exception leaves
  \<^verbatim>\<open>async_added_to_hass\<close> there, and neither the subscription to the switch nor the
  first call of the listener takes place.
\<close>

definition async_added_to_hass :: "float_builtin \<Rightarrow> hass \<Rightarrow> adapter \<Rightarrow> adapter \<times> effect list" where
  "async_added_to_hass float h self =
     (let es1 = [TrackStateChange [temperature_entity_id self] SensorChanged];
          (self1, es2) =
             (if hass_state h = running then async_startup float h self
              else (self, [ListenOnce EVENT_HOMEASSISTANT_START Startup]))
      in if raised es2 then (self1, es1 @ es2)
         else (let es3 = [TrackStateChange [switch_entity_id self1] StateChangedListener];
                   (self2, es4) = async_state_changed_listener h self1
               in (self2, es1 @ es2 @ es3 @ es4)))"

section \<open>The host delivering notifications\<close>

text \<open>
  The host calls \<^verbatim>\<open>_async_sensor_changed\<close> once for each sensor event, in order, and
  \<^verbatim>\<open>async_state_changed_listener\<close> once for each change of the switch, with the state
  registry as it is at the time of the call. An exception that leaves one call is the
  host's to handle; the next notification is delivered all the same.
\<close>

fun sensor_events :: "float_builtin \<Rightarrow> adapter \<Rightarrow> event list \<Rightarrow> adapter \<times> effect list" where
  "sensor_events float self [] = (self, [])"
| "sensor_events float self (ev # evs) =
     (let (self1, es1) = async_sensor_changed float self ev;
          (self2, es2) = sensor_events float self1 evs
      in (self2, es1 @ es2))"

fun switch_notifications :: "adapter \<Rightarrow> hass list \<Rightarrow> adapter \<times> effect list" where
  "switch_notifications self [] = (self, [])"
| "switch_notifications self (h # hs) =
     (let (self1, es1) = async_state_changed_listener h self;
          (self2, es2) = switch_notifications self1 hs
      in (self2, es1 @ es2))"

section \<open>Notions of the specification\<close>

text \<open>
  The value of an event whose state string parses as a finite float, and the most recent
  such value in a sequence of events (the last element of the list is the latest event).
\<close>

definition parses_finite :: "float_builtin \<Rightarrow> string \<Rightarrow> bool" where
  "parses_finite float s =
     (case float s of
        None \<Rightarrow> False
      | Some x \<Rightarrow> \<not> isnan x \<and> \<not> isinf x)"

definition finite_reading :: "float_builtin \<Rightarrow> event \<Rightarrow> pyfloat option" where
  "finite_reading float ev =
     (case new_state ev of
        None \<Rightarrow> None
      | Some ns \<Rightarrow> if parses_finite float (state ns) then float (state ns) else None)"

definition most_recent_reading :: "float_builtin \<Rightarrow> event list \<Rightarrow> pyfloat option" where
  "most_recent_reading float evs =
     (case List.map_filter (finite_reading float) (rev evs) of
        [] \<Rightarrow> None
      | x # _ \<Rightarrow> Some x)"

section \<open>Sample inputs\<close>

text \<open>
  A stand-in for \<^verbatim>\<open>float\<close> that converts the five strings below as Python does
  and raises \<^verbatim>\<open>ValueError\<close> on every other string; the examples apply it to these
  five and to strings that \<^verbatim>\<open>float\<close> rejects ("garbage", "unknown", "unavailable").
\<close>

definition float_sample :: float_builtin where
  "float_sample s =
     (if s = ''21.5'' then Some (Finite 21.5)
      else if s = ''48'' then Some (Finite 48)
      else if s = ''nan'' then Some NaN
      else if s = ''inf'' then Some PosInf
      else if s = ''-inf'' then Some NegInf
      else None)"

definition const_sample :: const_py where
  "const_sample = \<lparr> SENSOR_DOMAIN = ''sensor'', SWITCH_DOMAIN = ''switch'',
                     ROOM_TEMP = 20, BOIL_TEMP = 100 \<rparr>"

definition heater_with :: "int \<Rightarrow> int \<Rightarrow> adapter" where
  "heater_with min_t max_t =
     ComplexWaterHeater ''Boiler'' ''switch.boiler'' ''sensor.boiler_temp'' min_t max_t None"

definition heater :: adapter where
  "heater = heater_with 30 60"

definition sensor_event :: "string \<Rightarrow> event" where
  "sensor_event s = \<lparr> new_state = Some (State s) \<rparr>"

definition hass_with :: "string option \<Rightarrow> string option \<Rightarrow> CoreState \<Rightarrow> hass" where
  "hass_with switch_state sensor_state core =
     \<lparr> hass_states =
         (\<lambda>entity_id.
            if entity_id = ''switch.boiler'' then map_option State switch_state
            else if entity_id = ''sensor.boiler_temp'' then map_option State sensor_state
            else None),
       hass_state = core \<rparr>"

section \<open>Auxiliary facts\<close>

lemmas host_strings =
  STATE_OFF_def STATE_ON_def STATE_UNAVAILABLE_def STATE_UNKNOWN_def STATE_ELECTRIC_def
  SERVICE_TURN_ON_def SERVICE_TURN_OFF_def ATTR_ENTITY_ID_def EVENT_HOMEASSISTANT_START_def

lemmas sample_defs =
  float_sample_def const_sample_def heater_def heater_with_def sensor_event_def hass_with_def
  ComplexWaterHeater_def

text \<open>
  The listener writes the state after it has assigned \<^verbatim>\<open>_attr_is_on\<close>, so its write
  never raises.
\<close>

lemma listener_unfold:
  "async_state_changed_listener h self =
     (case hass_states h (switch_entity_id self) of
        None \<Rightarrow> (self\<lparr>attr_available := Some False\<rparr>, [])
      | Some st \<Rightarrow>
          if state st = STATE_UNAVAILABLE
          then (self\<lparr>attr_available := Some False\<rparr>, [])
          else (self\<lparr>attr_available := Some True,
                     attr_is_on := Some (state st = STATE_ON)\<rparr>, [WriteHaState]))"
  by (simp add: async_state_changed_listener_def async_write_ha_state_def current_operation_def
      Let_def split: option.splits)

lemma listener_not_raised:
  "\<not> raised (snd (async_state_changed_listener h self))"
  by (simp add: listener_unfold split: option.splits)


lemma async_sensor_changed_cur_temp:
  assumes "\<not> parses_finite float STATE_UNAVAILABLE" "\<not> parses_finite float STATE_UNKNOWN"
  shows "cur_temp (fst (async_sensor_changed float self ev)) =
     (case finite_reading float ev of None \<Rightarrow> cur_temp self | Some x \<Rightarrow> Some x)"
  using assms
  by (auto simp: async_sensor_changed_def async_update_temp_def finite_reading_def
      parses_finite_def split: option.splits)

lemma sensor_events_snoc:
  "fst (sensor_events float self (evs @ [ev])) =
     fst (async_sensor_changed float (fst (sensor_events float self evs)) ev)"
  by (induction evs arbitrary: self) (simp_all add: split_beta Let_def)

lemma most_recent_reading_snoc:
  "most_recent_reading float (evs @ [ev]) =
     (case finite_reading float ev of
        None \<Rightarrow> most_recent_reading float evs
      | Some x \<Rightarrow> Some x)"
  by (simp add: most_recent_reading_def split: option.splits)

text \<open>
  From any adapter, a run of sensor events ends with the latest finite reading of the run,
  or with the temperature the adapter started with when the run has none.
\<close>

lemma sensor_events_cur_temp:
  assumes "\<not> parses_finite float STATE_UNAVAILABLE" "\<not> parses_finite float STATE_UNKNOWN"
  shows "cur_temp (fst (sensor_events float self evs)) =
     (case most_recent_reading float evs of None \<Rightarrow> cur_temp self | Some x \<Rightarrow> Some x)"
proof (induction evs rule: rev_induct)
  case Nil
  show ?case by (simp add: most_recent_reading_def)
next
  case (snoc ev evs)
  show ?case
    by (simp add: sensor_events_snoc async_sensor_changed_cur_temp[OF assms]
        most_recent_reading_snoc snoc.IH split: option.splits)
qed

lemma listener_switch_entity_id:
  "switch_entity_id (fst (async_state_changed_listener h self)) = switch_entity_id self"
  by (simp add: listener_unfold split: option.splits)


lemma switch_notifications_snoc:
  "fst (switch_notifications self (hs @ [h])) =
     fst (async_state_changed_listener h (fst (switch_notifications self hs)))"
  by (induction hs arbitrary: self) (simp_all add: split_beta Let_def)

lemma switch_notifications_switch_entity_id:
  "switch_entity_id (fst (switch_notifications self hs)) = switch_entity_id self"
  by (induction hs arbitrary: self) (simp_all add: split_beta Let_def listener_switch_entity_id)

section \<open>Operating mode and target temperature\<close>

text \<open>
  C1. With the last-seen switch state "on", \<^verbatim>\<open>current_operation\<close> is "electric" and
  \<^verbatim>\<open>target_temperature\<close> should be the configured maximum bound. The properties
  \<^verbatim>\<open>min_temp\<close> and \<^verbatim>\<open>max_temp\<close> return the module constants instead of the
  bounds stored by \<^verbatim>\<open>__init__\<close>: an adapter configured with a maximum one above
  \<^verbatim>\<open>BOIL_TEMP\<close>, after its listener has seen the switch "on", reports "electric" and
  the target \<^verbatim>\<open>BOIL_TEMP\<close>, not the configured maximum.
\<close>

theorem target_temperature_ignores_configured_max:
  "attr_is_on (fst (async_state_changed_listener (hass_with (Some STATE_ON) None running)
                      (heater_with 30 (BOIL_TEMP c + 1)))) = Some True \<and>
   current_operation (fst (async_state_changed_listener (hass_with (Some STATE_ON) None running)
                      (heater_with 30 (BOIL_TEMP c + 1)))) = Some STATE_ELECTRIC \<and>
   attr_max_temp (fst (async_state_changed_listener (hass_with (Some STATE_ON) None running)
                      (heater_with 30 (BOIL_TEMP c + 1)))) = BOIL_TEMP c + 1 \<and>
   target_temperature c (fst (async_state_changed_listener (hass_with (Some STATE_ON) None running)
                      (heater_with 30 (BOIL_TEMP c + 1)))) = Some (BOIL_TEMP c)"
  by (simp add: listener_unfold current_operation_def target_temperature_def
      max_temp_def min_temp_def host_strings sample_defs)

section \<open>Current temperature\<close>

text \<open>
  C2. For every finite sequence of sensor events processed by
  \<^verbatim>\<open>_async_sensor_changed\<close> from a freshly constructed adapter,
  \<^verbatim>\<open>current_temperature\<close> is the value of the most recent event whose state string
  parses as a finite float, and \<open>None\<close> when there is no such event. The two hypotheses
  are facts of the builtin \<^verbatim>\<open>float\<close>, which the model takes as a parameter: it does
  not read "unavailable" or "unknown" as a finite number.
\<close>

theorem current_temperature_most_recent_reading:
  assumes "\<not> parses_finite float STATE_UNAVAILABLE"
    and "\<not> parses_finite float STATE_UNKNOWN"
  shows "current_temperature
           (fst (sensor_events float (ComplexWaterHeater name sw te mn mx uid) evs)) =
         most_recent_reading float evs"
  by (simp add: current_temperature_def sensor_events_cur_temp[OF assms] ComplexWaterHeater_def
      split: option.splits)

theorem current_temperature_most_recent_reading_witness:
  "\<not> parses_finite float_sample STATE_UNAVAILABLE \<and>
   \<not> parses_finite float_sample STATE_UNKNOWN \<and>
   current_temperature
     (fst (sensor_events float_sample heater
             [sensor_event ''21.5'', sensor_event ''garbage'', sensor_event ''48'',
              sensor_event ''nan'', sensor_event STATE_UNKNOWN, \<lparr>new_state = None\<rparr>])) =
   Some (Finite 48)"
  using current_temperature_most_recent_reading [of float_sample
      "''Boiler''" "''switch.boiler''" "''sensor.boiler_temp''" 30 60 None
      "[sensor_event ''21.5'', sensor_event ''garbage'', sensor_event ''48'',
        sensor_event ''nan'', sensor_event STATE_UNKNOWN, \<lparr>new_state = None\<rparr>]"]
  by (simp add: parses_finite_def most_recent_reading_def finite_reading_def
      List.map_filter_def host_strings sample_defs)

text \<open>
  C3. A sensor state string that is non-numeric, or parses to NaN or to an infinity, leaves
  the adapter as it was (\<^verbatim>\<open>_cur_temp\<close> included) when processed by
  \<^verbatim>\<open>_async_update_temp\<close>, and exactly one error is logged; nothing else is emitted.
\<close>

theorem async_update_temp_invalid:
  assumes "float (state st) = None \<or> float (state st) = Some NaN \<or>
           float (state st) = Some PosInf \<or> float (state st) = Some NegInf"
  shows "fst (async_update_temp float self st) = self \<and>
         length (logged_errors (snd (async_update_temp float self st))) = 1 \<and>
         length (snd (async_update_temp float self st)) = 1"
  using assms by (auto simp: async_update_temp_def)

theorem async_update_temp_invalid_witness:
  "float_sample (state (State ''inf'')) = Some PosInf \<and>
   float_sample (state (State ''garbage'')) = None \<and>
   async_update_temp float_sample (heater\<lparr>cur_temp := Some (Finite 48)\<rparr>) (State ''inf'') =
     (heater\<lparr>cur_temp := Some (Finite 48)\<rparr>, [LogError (IllegalState ''inf'')]) \<and>
   async_update_temp float_sample (heater\<lparr>cur_temp := Some (Finite 48)\<rparr>) (State ''garbage'') =
     (heater\<lparr>cur_temp := Some (Finite 48)\<rparr>, [LogError (CouldNotConvert ''garbage'')])"
  using async_update_temp_invalid [of float_sample "State ''inf''"
      "heater\<lparr>cur_temp := Some (Finite 48)\<rparr>"]
    async_update_temp_invalid [of float_sample "State ''garbage''"
      "heater\<lparr>cur_temp := Some (Finite 48)\<rparr>"]
  by (simp add: async_update_temp_def float_sample_def)

section \<open>The switch listener\<close>

text \<open>
  C4. Whenever the lookup of the switch entity returns nothing, or a state "unavailable",
  \<^verbatim>\<open>async_state_changed_listener\<close> sets \<^verbatim>\<open>_attr_available\<close> to \<open>False\<close>,
  whatever the sensor's state and the other fields of the adapter are.
\<close>

theorem listener_switch_unavailable:
  assumes "map_option state (hass_states h (switch_entity_id self))
             \<in> {None, Some STATE_UNAVAILABLE}"
  shows "attr_available (fst (async_state_changed_listener h self)) = Some False"
  using assms by (auto simp: listener_unfold split: option.splits)

theorem listener_switch_unavailable_witness:
  "map_option state (hass_states (hass_with (Some STATE_UNAVAILABLE) (Some ''48'') running)
      (switch_entity_id (heater\<lparr>attr_available := Some True, attr_is_on := Some True\<rparr>)))
     \<in> {None, Some STATE_UNAVAILABLE} \<and>
   attr_available (fst (async_state_changed_listener
      (hass_with (Some STATE_UNAVAILABLE) (Some ''48'') running)
      (heater\<lparr>attr_available := Some True, attr_is_on := Some True\<rparr>))) = Some False"
  using listener_switch_unavailable [of "hass_with (Some STATE_UNAVAILABLE) (Some ''48'') running"
      "heater\<lparr>attr_available := Some True, attr_is_on := Some True\<rparr>"]
  by (simp add: sample_defs)

section \<open>Setting the operation mode\<close>

text \<open>
  C5. \<^verbatim>\<open>async_set_operation_mode\<close> with the mode "off" makes exactly one service call:
  \<^verbatim>\<open>turn_off\<close> in the switch domain, on the configured switch entity id. The only other
  call it makes is the "update" broadcast through the dispatcher, which is not a service
  call.
\<close>

theorem set_operation_mode_off:
  "service_calls (async_set_operation_mode c self STATE_OFF) =
     [\<lparr> domain = SWITCH_DOMAIN c, service = SERVICE_TURN_OFF,
        service_data = [(ATTR_ENTITY_ID, switch_entity_id self)], blocking = True \<rparr>] \<and>
   async_set_operation_mode c self STATE_OFF =
     [ServiceCall \<lparr> domain = SWITCH_DOMAIN c, service = SERVICE_TURN_OFF,
        service_data = [(ATTR_ENTITY_ID, switch_entity_id self)], blocking = True \<rparr>,
      DispatcherSend ''update'']"
  by (simp add: async_set_operation_mode_def async_turn_off_def)

section \<open>Unknown and unavailable sensor readings\<close>

text \<open>
  C6, as amended. A sensor event whose new state is missing, "unavailable" or "unknown"
  leaves the adapter as it was, the reported temperature included; it is dropped before
  \<^verbatim>\<open>_async_update_temp\<close> is reached, so nothing is logged and no state is written.
\<close>

theorem sensor_unknown_ignored:
  assumes "map_option state (new_state ev)
             \<in> {None, Some STATE_UNAVAILABLE, Some STATE_UNKNOWN}"
  shows "async_sensor_changed float self ev = (self, [])"
  using assms by (auto simp: async_sensor_changed_def split: option.splits)

theorem sensor_unknown_ignored_witness:
  "map_option state (new_state (sensor_event STATE_UNAVAILABLE))
     \<in> {None, Some STATE_UNAVAILABLE, Some STATE_UNKNOWN} \<and>
   async_sensor_changed float_sample (heater\<lparr>cur_temp := Some (Finite 48)\<rparr>)
     (sensor_event STATE_UNAVAILABLE) = (heater\<lparr>cur_temp := Some (Finite 48)\<rparr>, [])"
  using sensor_unknown_ignored [of "sensor_event STATE_UNAVAILABLE" float_sample
      "heater\<lparr>cur_temp := Some (Finite 48)\<rparr>"]
  by (simp add: sensor_event_def)

text \<open>
  C6 as first stated has the reading logged like an invalid one. The event with state
  "unknown" logs nothing, where the event with the non-numeric state "garbage" logs one
  error.
\<close>

theorem sensor_unknown_not_logged:
  "logged_errors (snd (async_sensor_changed float_sample heater (sensor_event STATE_UNKNOWN)))
     = [] \<and>
   logged_errors (snd (async_sensor_changed float_sample heater (sensor_event ''garbage'')))
     = [CouldNotConvert ''garbage'']"
  by (simp add: async_sensor_changed_def async_update_temp_def async_write_ha_state_def
      current_operation_def host_strings sample_defs)

section \<open>The adapter as a projection of the switch\<close>

text \<open>
  C7, as amended. After a run of switch notifications, the availability flag is a function
  of the state the switch had at the last notification alone: \<open>False\<close> when the entity
  is absent or "unavailable", \<open>True\<close> otherwise. The on/off flag is a function of that
  state (it says whether the state is "on") when the state is present and not
  "unavailable"; otherwise the flag is the one the adapter had before the last
  notification.
\<close>

theorem switch_projection:
  "attr_available (fst (switch_notifications self (hs @ [h]))) =
     Some (case hass_states h (switch_entity_id self) of
             None \<Rightarrow> False
           | Some st \<Rightarrow> state st \<noteq> STATE_UNAVAILABLE) \<and>
   (hass_states h (switch_entity_id self) = Some st \<and> state st \<noteq> STATE_UNAVAILABLE \<longrightarrow>
      attr_is_on (fst (switch_notifications self (hs @ [h]))) = Some (state st = STATE_ON)) \<and>
   (map_option state (hass_states h (switch_entity_id self)) \<in> {None, Some STATE_UNAVAILABLE} \<longrightarrow>
      attr_is_on (fst (switch_notifications self (hs @ [h]))) =
        attr_is_on (fst (switch_notifications self hs)))"
  by (auto simp: switch_notifications_snoc listener_unfold
      switch_notifications_switch_entity_id split: option.splits)

theorem switch_projection_witness:
  "hass_states (hass_with (Some STATE_OFF) None running) (switch_entity_id heater) =
     Some (State STATE_OFF) \<and>
   state (State STATE_OFF) \<noteq> STATE_UNAVAILABLE \<and>
   attr_available (fst (switch_notifications heater
      [hass_with (Some STATE_ON) None running, hass_with (Some STATE_UNAVAILABLE) None running,
       hass_with (Some STATE_OFF) None running])) = Some True \<and>
   attr_is_on (fst (switch_notifications heater
      [hass_with (Some STATE_ON) None running, hass_with (Some STATE_UNAVAILABLE) None running,
       hass_with (Some STATE_OFF) None running])) = Some False \<and>
   map_option state (hass_states (hass_with None None running) (switch_entity_id heater))
     \<in> {None, Some STATE_UNAVAILABLE} \<and>
   attr_available (fst (switch_notifications heater
      [hass_with (Some STATE_ON) None running, hass_with None None running])) = Some False \<and>
   attr_is_on (fst (switch_notifications heater
      [hass_with (Some STATE_ON) None running, hass_with None None running])) = Some True"
  using switch_projection [of heater
      "[hass_with (Some STATE_ON) None running, hass_with (Some STATE_UNAVAILABLE) None running]"
      "hass_with (Some STATE_OFF) None running" "State STATE_OFF"]
    switch_projection [of heater "[hass_with (Some STATE_ON) None running]"
      "hass_with None None running" "State STATE_OFF"]
  by (simp add: listener_unfold host_strings sample_defs)

text \<open>
  C7 as first stated makes the on/off flag a function of the most recently published
  state. Two runs that both end with the switch "unavailable" leave different flags.
\<close>

theorem is_on_not_projection:
  "attr_is_on (fst (switch_notifications heater
      [hass_with (Some STATE_ON) None running, hass_with (Some STATE_UNAVAILABLE) None running]))
     = Some True \<and>
   attr_is_on (fst (switch_notifications heater
      [hass_with (Some STATE_OFF) None running, hass_with (Some STATE_UNAVAILABLE) None running]))
     = Some False"
  by (simp add: listener_unfold host_strings sample_defs)

section \<open>Registration with a sensor reading already present\<close>

text \<open>
  What registration does on a host that is not running: it subscribes to the sensor, leaves
  \<^verbatim>\<open>_async_startup\<close> as the one-time listener of the host's start event, subscribes to
  the switch and calls the switch listener once. The temperature is not touched.
\<close>

lemma async_added_to_hass_not_running:
  "hass_state h \<noteq> running \<Longrightarrow>
   async_added_to_hass float h self =
     (fst (async_state_changed_listener h self),
      [TrackStateChange [temperature_entity_id self] SensorChanged,
       ListenOnce EVENT_HOMEASSISTANT_START Startup,
       TrackStateChange [switch_entity_id self] StateChangedListener]
      @ snd (async_state_changed_listener h self))"
  by (simp add: async_added_to_hass_def split_beta Let_def)


text \<open>
  A freshly constructed adapter registered on a running host, with a sensor state present:
  the state write of \<^verbatim>\<open>_async_startup\<close> comes before the first assignment of
  \<^verbatim>\<open>_attr_is_on\<close> and raises; registration ends there, with the reading adopted and
  neither the switch subscribed nor the listener called.
\<close>

lemma async_added_to_hass_running_fresh:
  "async_added_to_hass float_sample (hass_with (Some STATE_ON) (Some ''21.5'') running) heater =
     (heater\<lparr>cur_temp := Some (Finite 21.5)\<rparr>,
      [TrackStateChange [temperature_entity_id heater] SensorChanged, Raised AttributeError])"
  by (simp add: async_added_to_hass_def async_startup_def async_update_temp_def
      async_write_ha_state_def current_operation_def host_strings sample_defs)




section \<open>What an outage of the switch leaves alone\<close>

text \<open>
  C9. When the switch entity is absent or "unavailable", the listener changes the
  availability flag and nothing else: \<^verbatim>\<open>_attr_is_on\<close> keeps its value, so
  \<^verbatim>\<open>current_operation\<close> and \<^verbatim>\<open>target_temperature\<close> report what they reported
  before, and no state is written to the host.
\<close>

theorem listener_unavailable_frame:
  assumes "map_option state (hass_states h (switch_entity_id self))
             \<in> {None, Some STATE_UNAVAILABLE}"
  shows "async_state_changed_listener h self = (self\<lparr>attr_available := Some False\<rparr>, []) \<and>
         attr_is_on (fst (async_state_changed_listener h self)) = attr_is_on self \<and>
         current_operation (fst (async_state_changed_listener h self)) =
           current_operation self \<and>
         target_temperature c (fst (async_state_changed_listener h self)) =
           target_temperature c self \<and>
         state_writes (snd (async_state_changed_listener h self)) = 0"
  using assms
  by (auto simp: listener_unfold current_operation_def target_temperature_def
      max_temp_def min_temp_def split: option.splits)

theorem listener_unavailable_frame_witness:
  "map_option state (hass_states (hass_with None (Some ''48'') running)
      (switch_entity_id (heater\<lparr>attr_available := Some True, attr_is_on := Some True\<rparr>)))
     \<in> {None, Some STATE_UNAVAILABLE} \<and>
   async_state_changed_listener (hass_with None (Some ''48'') running)
      (heater\<lparr>attr_available := Some True, attr_is_on := Some True\<rparr>) =
     (heater\<lparr>attr_available := Some False, attr_is_on := Some True\<rparr>, []) \<and>
   current_operation (fst (async_state_changed_listener (hass_with None (Some ''48'') running)
      (heater\<lparr>attr_available := Some True, attr_is_on := Some True\<rparr>))) =
     Some STATE_ELECTRIC \<and>
   target_temperature const_sample
     (fst (async_state_changed_listener (hass_with None (Some ''48'') running)
        (heater\<lparr>attr_available := Some True, attr_is_on := Some True\<rparr>))) = Some 100"
  using listener_unavailable_frame [of "hass_with None (Some ''48'') running"
      "heater\<lparr>attr_available := Some True, attr_is_on := Some True\<rparr>" const_sample]
  by (simp add: current_operation_def target_temperature_def max_temp_def min_temp_def
      host_strings sample_defs)

section \<open>Operation modes other than "off"\<close>

text \<open>
  C10. For every operation mode other than "off", in the advertised list or not,
  \<^verbatim>\<open>async_set_operation_mode\<close> makes the \<^verbatim>\<open>turn_on\<close> service call on the
  configured switch entity, followed by the "update" broadcast. The function has no
  branch that rejects a mode: its result is this list of calls for every such string.
\<close>

theorem set_operation_mode_not_off:
  assumes "operation_mode \<noteq> STATE_OFF"
  shows "async_set_operation_mode c self operation_mode =
     [ServiceCall \<lparr> domain = SWITCH_DOMAIN c, service = SERVICE_TURN_ON,
        service_data = [(ATTR_ENTITY_ID, switch_entity_id self)], blocking = True \<rparr>,
      DispatcherSend ''update'']"
  using assms by (simp add: async_set_operation_mode_def async_turn_on_def)

theorem set_operation_mode_not_off_witness:
  "''eco'' \<noteq> STATE_OFF \<and> ''eco'' \<notin> set attr_operation_list \<and>
   async_set_operation_mode const_sample heater ''eco'' =
     [ServiceCall \<lparr> domain = SWITCH_DOMAIN const_sample, service = SERVICE_TURN_ON,
        service_data = [(ATTR_ENTITY_ID, switch_entity_id heater)], blocking = True \<rparr>,
      DispatcherSend ''update'']"
  using set_operation_mode_not_off [of "''eco''" const_sample heater]
  by (simp add: attr_operation_list_def host_strings)

end
